theory Spec2Isabelle
  imports Main "HOL-Library.Word" "HOL-Library.Sublist"
begin

unbundle bit_operations_syntax

section \<open>Values shared by the services\<close>

text \<open>
  A Node \<open>Buffer\<close> is a list of bytes. A JavaScript string is a \<open>string\<close>, one
  \<open>char\<close> per byte of the text (HTTP header values and the secrets read from the
  environment reach the code as such).
\<close>

type_synonym byte = "8 word"
type_synonym buffer = "byte list"

definition bytes_of :: "string \<Rightarrow> buffer" where
  "bytes_of s = map (\<lambda>c. of_nat (of_char c)) s"

text \<open>
  A thrown JavaScript value: an \<open>Error\<close> object (of some class, with its message), or
  anything else. \<open>error instanceof Error ? error.message : "Unknown error"\<close> is
  \<open>message_of\<close>.
\<close>

datatype error_class = PlainError | RangeError | TypeError | SyntaxError

datatype exn = Error error_class string | NonError

fun message_of :: "exn \<Rightarrow> string" where
  "message_of (Error _ m) = m"
| "message_of NonError = ''Unknown error''"

section \<open>The runtime library used by \<open>shared/security.ts\<close>\<close>

subsection \<open>Hex text: \<open>digest("hex")\<close> and \<open>Buffer.from(s, "hex")\<close>\<close>

definition hex_digit :: "nat \<Rightarrow> char" where
  "hex_digit n = ''0123456789abcdef'' ! (n mod 16)"

definition hex_encode :: "buffer \<Rightarrow> string" where
  "hex_encode bs = concat (map (\<lambda>b. [hex_digit (unat b div 16), hex_digit (unat b mod 16)]) bs)"

definition unhex :: "char \<Rightarrow> nat option" where
  "unhex c =
     (let n = (of_char c :: nat) in
      if 48 \<le> n \<and> n \<le> 57 then Some (n - 48)
      else if 97 \<le> n \<and> n \<le> 102 then Some (n - 87)
      else if 65 \<le> n \<and> n \<le> 70 then Some (n - 55)
      else None)"

text \<open>
  Node decodes pairs of hex digits and stops at the first pair that is not two hex
  digits; a trailing single character is dropped.
\<close>

fun hex_decode :: "string \<Rightarrow> buffer" where
  "hex_decode (a # b # rest) =
     (case unhex a of
        None \<Rightarrow> []
      | Some x \<Rightarrow> (case unhex b of
                    None \<Rightarrow> []
                  | Some y \<Rightarrow> of_nat (16 * x + y) # hex_decode rest))"
| "hex_decode _ = []"

subsection \<open>SHA-256 (FIPS 180-4) and HMAC (RFC 2104), as Node's \<open>crypto.createHmac\<close> computes them\<close>

type_synonym w32 = "32 word"

text \<open>Four bytes, big-endian, as one word; and back.\<close>

definition be32 :: "byte \<Rightarrow> byte \<Rightarrow> byte \<Rightarrow> byte \<Rightarrow> w32" where
  "be32 a b c d =
     push_bit 24 (ucast a) OR push_bit 16 (ucast b) OR push_bit 8 (ucast c) OR ucast d"

fun words_of :: "buffer \<Rightarrow> w32 list" where
  "words_of (a # b # c # d # rest) = be32 a b c d # words_of rest"
| "words_of _ = []"

definition bytes_of_w32 :: "w32 \<Rightarrow> buffer" where
  "bytes_of_w32 w = [ucast (drop_bit 24 w), ucast (drop_bit 16 w), ucast (drop_bit 8 w), ucast w]"

text \<open>
  The 64 round constants and the initial hash value, written as the hex text of their
  bytes: eight words a row.
\<close>

definition K256 :: "w32 list" where
  "K256 = words_of (hex_decode
     (''428a2f9871374491b5c0fbcfe9b5dba53956c25b59f111f1923f82a4ab1c5ed5'' @
      ''d807aa9812835b01243185be550c7dc372be5d7480deb1fe9bdc06a7c19bf174'' @
      ''e49b69c1efbe47860fc19dc6240ca1cc2de92c6f4a7484aa5cb0a9dc76f988da'' @
      ''983e5152a831c66db00327c8bf597fc7c6e00bf3d5a7914706ca635114292967'' @
      ''27b70a852e1b21384d2c6dfc53380d13650a7354766a0abb81c2c92e92722c85'' @
      ''a2bfe8a1a81a664bc24b8b70c76c51a3d192e819d6990624f40e3585106aa070'' @
      ''19a4c1161e376c082748774c34b0bcb5391c0cb34ed8aa4a5b9cca4f682e6ff3'' @
      ''748f82ee78a5636f84c878148cc7020890befffaa4506cebbef9a3f7c67178f2''))"

definition H256 :: "w32 list" where
  "H256 = words_of (hex_decode ''6a09e667bb67ae853c6ef372a54ff53a510e527f9b05688c1f83d9ab5be0cd19'')"

definition Ch :: "w32 \<Rightarrow> w32 \<Rightarrow> w32 \<Rightarrow> w32" where
  "Ch x y z = (x AND y) XOR (NOT x AND z)"

definition Maj :: "w32 \<Rightarrow> w32 \<Rightarrow> w32 \<Rightarrow> w32" where
  "Maj x y z = (x AND y) XOR (x AND z) XOR (y AND z)"

definition Sigma0 :: "w32 \<Rightarrow> w32" where
  "Sigma0 x = word_rotr 2 x XOR word_rotr 13 x XOR word_rotr 22 x"

definition Sigma1 :: "w32 \<Rightarrow> w32" where
  "Sigma1 x = word_rotr 6 x XOR word_rotr 11 x XOR word_rotr 25 x"

definition sigma0 :: "w32 \<Rightarrow> w32" where
  "sigma0 x = word_rotr 7 x XOR word_rotr 18 x XOR drop_bit 3 x"

definition sigma1 :: "w32 \<Rightarrow> w32" where
  "sigma1 x = word_rotr 17 x XOR word_rotr 19 x XOR drop_bit 10 x"

text \<open>The message schedule: \<open>n\<close> more words after the ones given.\<close>

fun schedule :: "nat \<Rightarrow> w32 list \<Rightarrow> w32 list" where
  "schedule 0 ws = ws"
| "schedule (Suc n) ws =
     (let t = length ws in
      schedule n (ws @ [sigma1 (ws ! (t - 2)) + ws ! (t - 7) + sigma0 (ws ! (t - 15)) + ws ! (t - 16)]))"

fun round256 :: "w32 list \<Rightarrow> w32 \<times> w32 \<Rightarrow> w32 list" where
  "round256 [a, b, c, d, e, f, g, h] (k, w) =
     (let t1 = h + Sigma1 e + Ch e f g + k + w;
          t2 = Sigma0 a + Maj a b c
      in [t1 + t2, a, b, c, d + t1, e, f, g])"
| "round256 st _ = st"

definition compress :: "w32 list \<Rightarrow> buffer \<Rightarrow> w32 list" where
  "compress hs block =
     map2 (+) hs (foldl round256 hs (zip K256 (schedule 48 (words_of block))))"

text \<open>Padding to a multiple of 64 bytes: \<open>0x80\<close>, zeros, the bit length on 8 bytes.\<close>

definition pad256 :: "buffer \<Rightarrow> buffer" where
  "pad256 m =
     (let l = length m;
          bits = (word_of_nat (8 * l) :: 64 word)
      in m @ [0x80] @ replicate ((64 - (l + 9) mod 64) mod 64) 0 @
         map (\<lambda>i. ucast (drop_bit (8 * (7 - i)) bits)) [0..<8])"

fun blocks :: "nat \<Rightarrow> buffer \<Rightarrow> buffer list" where
  "blocks 0 bs = []"
| "blocks (Suc n) bs = take 64 bs # blocks n (drop 64 bs)"

definition sha256 :: "buffer \<Rightarrow> buffer" where
  "sha256 m =
     (let p = pad256 m
      in concat (map bytes_of_w32 (foldl compress H256 (blocks (length p div 64) p))))"

definition hmac_sha256 :: "buffer \<Rightarrow> buffer \<Rightarrow> buffer" where
  "hmac_sha256 key m =
     (let k0 = (if length key > 64 then sha256 key else key);
          k = k0 @ replicate (64 - length k0) 0
      in sha256 (map (\<lambda>b. b XOR 0x5c) k @ sha256 (map (\<lambda>b. b XOR 0x36) k @ m)))"

subsection \<open>\<open>crypto.timingSafeEqual\<close>\<close>

definition timingSafeEqual :: "buffer \<Rightarrow> buffer \<Rightarrow> exn + bool" where
  "timingSafeEqual a b =
     (if length a \<noteq> length b
      then Inl (Error RangeError ''Input buffers must have the same byte length'')
      else Inr (a = b))"

section \<open>\<open>shared/security.ts\<close>: \<open>validateWebhookSignature\<close>\<close>

record SignatureValidationResult =
  valid :: bool
  error :: "string option"

text \<open>The body of the \<open>try\<close> block: a result, or the exception that leaves it.\<close>

definition validate_try :: "buffer \<Rightarrow> string \<Rightarrow> string \<Rightarrow> exn + SignatureValidationResult" where
  "validate_try rawBody signature secret =
     (if signature = [] \<or> \<not> prefix ''sha256='' signature
      then Inr \<lparr>valid = False,
                error = Some ''Invalid signature format. Expected \"sha256=<hash>\"''\<rparr>
      else
        let receivedHash = drop 7 signature;
            expectedHash = hex_encode (hmac_sha256 (bytes_of secret) rawBody)
        in case timingSafeEqual (hex_decode receivedHash) (hex_decode expectedHash) of
             Inl e \<Rightarrow> Inl e
           | Inr isValid \<Rightarrow>
               if \<not> isValid
               then Inr \<lparr>valid = False,
                         error = Some ''Signature mismatch. Request may be tampered or secret is incorrect''\<rparr>
               else Inr \<lparr>valid = True, error = None\<rparr>)"

definition validateWebhookSignature :: "buffer \<Rightarrow> string \<Rightarrow> string \<Rightarrow> SignatureValidationResult" where
  "validateWebhookSignature rawBody signature secret =
     (case validate_try rawBody signature secret of
        Inr r \<Rightarrow> r
      | Inl e \<Rightarrow> \<lparr>valid = False, error = Some (''Signature validation error: '' @ message_of e)\<rparr>)"

section \<open>\<open>shared/types.ts\<close>\<close>

text \<open>
  A JavaScript value as \<open>JSON.parse\<close> builds it, and \<open>undefined\<close>, which reading an
  absent property gives. Numbers are kept as integers: the code only compares them with
  the members of \<open>NotificationType\<close>.
\<close>

datatype jsval =
    Undefined
  | Null
  | Bool bool
  | Num int
  | Str string
  | Arr "jsval list"
  | Obj "(string \<times> jsval) list"

record WebhookHeaders =
  x_discourse_event :: string
  x_discourse_event_signature :: string
  x_discourse_event_id :: "string option"
  x_discourse_instance :: "string option"

record DiscourseWebhookEvent =
  event_type :: string
  payload :: jsval
  headers :: WebhookHeaders
  received_at :: string

record QueueMessage =
  id' :: string
  event :: DiscourseWebhookEvent
  timestamp :: string
  retry_count :: "int option"

record ProcessingResult =
  success :: bool
  message_id :: string
  result_event_type :: string
  result_error :: "string option"
  processed_at :: string

text \<open>The members of \<open>NotificationType\<close> the processors name.\<close>

definition MENTIONED :: int where "MENTIONED = 1"
definition REPLIED :: int where "REPLIED = 2"
definition PRIVATE_MESSAGE :: int where "PRIVATE_MESSAGE = 6"
definition GRANTED_BADGE :: int where "GRANTED_BADGE = 12"

section \<open>\<open>shared/queue.ts\<close>: \<open>MessageQueue\<close>\<close>

text \<open>
  The amqplib channel is outside the repository. Of \<open>sendToQueue\<close> the class uses the
  outcome only: \<open>true\<close>, \<open>false\<close> (the write buffer is full), or an exception. The
  message stands for its JSON text.
\<close>

record Channel =
  sendToQueue :: "QueueMessage \<Rightarrow> exn + bool"

record MessageQueue =
  connection :: bool
  channel :: "Channel option"

text \<open>
  \<open>publish\<close>: the value returned or the exception thrown, and the messages handed to
  \<open>channel.sendToQueue\<close>.
\<close>

definition publish :: "MessageQueue \<Rightarrow> QueueMessage \<Rightarrow> (exn + bool) \<times> QueueMessage list" where
  "publish mq message =
     (case channel mq of
        None \<Rightarrow> (Inl (Error PlainError ''Channel not initialized. Call connect() first''), [])
      | Some ch \<Rightarrow>
          (case sendToQueue ch message of
             Inl e \<Rightarrow> (Inl e, [message])
           | Inr ok \<Rightarrow> (Inr ok, [message])))"

definition isConnected :: "MessageQueue \<Rightarrow> bool" where
  "isConnected mq = (connection mq \<and> channel mq \<noteq> None)"

text \<open>
  A delivery (\<open>amqp.ConsumeMessage\<close>): the content, the header table of its properties
  (it can be absent), and the broker's redelivered flag. The code reads one header,
  \<open>x-retry-count\<close>, as a number.
\<close>

record ConsumeMessage =
  content :: buffer
  properties_headers :: "(string \<rightharpoonup> int) option"
  redelivered :: bool

datatype channel_cmd = Ack ConsumeMessage | Reject ConsumeMessage bool

text \<open>\<open>(msg.properties.headers?.["x-retry-count"] as number) || 0\<close>\<close>

definition retryCount_of :: "ConsumeMessage \<Rightarrow> int" where
  "retryCount_of msg =
     (case properties_headers msg of
        None \<Rightarrow> 0
      | Some hs \<Rightarrow> (case hs ''x-retry-count'' of None \<Rightarrow> 0 | Some n \<Rightarrow> if n = 0 then 0 else n))"

text \<open>The \<open>catch\<close> block of the consumer callback.\<close>

definition on_error :: "ConsumeMessage \<Rightarrow> channel_cmd list" where
  "on_error msg =
     (let retryCount = retryCount_of msg
      in if retryCount < 3 then [Reject msg True] else [Reject msg False])"

text \<open>
  The callback \<open>consume\<close> registers, for one delivery: the commands it sends on the
  channel. \<open>JSON_parse\<close> is \<open>JSON.parse(msg.content.toString())\<close> read at the type
  \<open>QueueMessage\<close>; \<open>handler\<close> returns, or throws (a rejected promise).
\<close>

definition on_message ::
  "(buffer \<Rightarrow> exn + QueueMessage) \<Rightarrow> (QueueMessage \<Rightarrow> exn + unit) \<Rightarrow> ConsumeMessage option
     \<Rightarrow> channel_cmd list" where
  "on_message JSON_parse handler m =
     (case m of
        None \<Rightarrow> []
      | Some msg \<Rightarrow>
          (case JSON_parse (content msg) of
             Inl e \<Rightarrow> on_error msg
           | Inr message \<Rightarrow>
               (case handler message of
                  Inl e \<Rightarrow> on_error msg
                | Inr _ \<Rightarrow> [Ack msg])))"

text \<open>
  \<open>consume\<close> over the deliveries the broker makes, one at a time (prefetch 1): it
  throws when the channel is missing, and otherwise every delivery runs the callback.
\<close>

definition consume ::
  "MessageQueue \<Rightarrow> (buffer \<Rightarrow> exn + QueueMessage) \<Rightarrow> (QueueMessage \<Rightarrow> exn + unit)
     \<Rightarrow> ConsumeMessage option list \<Rightarrow> exn + channel_cmd list" where
  "consume mq JSON_parse handler ds =
     (case channel mq of
        None \<Rightarrow> Inl (Error PlainError ''Channel not initialized. Call connect() first'')
      | Some ch \<Rightarrow> Inr (concat (map (on_message JSON_parse handler) ds)))"

text \<open>
  The broker's side of \<open>basic.reject\<close> (AMQP 0-9-1): with requeue the message goes back
  to the queue as it was delivered, content and properties unchanged, flagged as
  redelivered; without requeue, and after an acknowledgement, it leaves the queue.
  \<open>deliveries n cb msg\<close> are the commands of up to \<open>n\<close> successive deliveries of one
  message to the callback \<open>cb\<close>.
\<close>

definition requeued_as :: "ConsumeMessage \<Rightarrow> ConsumeMessage" where
  "requeued_as msg = msg\<lparr>redelivered := True\<rparr>"

fun deliveries :: "nat \<Rightarrow> (ConsumeMessage option \<Rightarrow> channel_cmd list) \<Rightarrow> ConsumeMessage \<Rightarrow> channel_cmd list" where
  "deliveries 0 cb msg = []"
| "deliveries (Suc n) cb msg =
     (case cb (Some msg) of
        [Reject m True] \<Rightarrow> Reject m True # deliveries n cb (requeued_as m)
      | cs \<Rightarrow> cs)"

section \<open>\<open>worker/processors.ts\<close>\<close>

text \<open>
  Reading a property: of \<open>undefined\<close> and \<open>null\<close> it throws a \<open>TypeError\<close>; an object
  gives the value under the key, or \<open>undefined\<close>; the other values have none of the
  properties the processors read. Destructuring (\<open>const { k } = v\<close>) differs in the
  message only. The messages are V8's, the property name in single quotes.
\<close>

definition quoted :: "string \<Rightarrow> string" where
  "quoted s = [CHR 0x27] @ s @ [CHR 0x27]"

fun get_prop :: "jsval \<Rightarrow> string \<Rightarrow> exn + jsval" where
  "get_prop Undefined k =
     Inl (Error TypeError (''Cannot read properties of undefined (reading '' @ quoted k @ '')''))"
| "get_prop Null k =
     Inl (Error TypeError (''Cannot read properties of null (reading '' @ quoted k @ '')''))"
| "get_prop (Obj kvs) k = Inr (case map_of kvs k of None \<Rightarrow> Undefined | Some v \<Rightarrow> v)"
| "get_prop _ k = Inr Undefined"

fun destructure :: "jsval \<Rightarrow> string \<Rightarrow> string \<Rightarrow> exn + jsval" where
  "destructure Undefined k src =
     Inl (Error TypeError (''Cannot destructure property '' @ quoted k @ '' of '' @ quoted src
                            @ '' as it is undefined.''))"
| "destructure Null k src =
     Inl (Error TypeError (''Cannot destructure property '' @ quoted k @ '' of '' @ quoted src
                            @ '' as it is null.''))"
| "destructure v k src = get_prop v k"

definition and_then :: "exn + 'a \<Rightarrow> ('a \<Rightarrow> exn + 'b) \<Rightarrow> exn + 'b" where
  "and_then r f = (case r of Inl e \<Rightarrow> Inl e | Inr v \<Rightarrow> f v)"

text \<open>\<open>event.headers["x-discourse-event-id"] || "unknown"\<close>\<close>

definition event_id_or_unknown :: "DiscourseWebhookEvent \<Rightarrow> string" where
  "event_id_or_unknown ev =
     (case x_discourse_event_id (headers ev) of
        None \<Rightarrow> ''unknown''
      | Some i \<Rightarrow> if i = [] then ''unknown'' else i)"

definition ok_result :: "string \<Rightarrow> DiscourseWebhookEvent \<Rightarrow> ProcessingResult" where
  "ok_result now ev =
     \<lparr>success = True, message_id = event_id_or_unknown ev, result_event_type = event_type ev,
      result_error = None, processed_at = now\<rparr>"

text \<open>The \<open>switch\<close> of \<open>processNotificationEvent\<close>: the properties each case reads.\<close>

definition notification_switch :: "jsval \<Rightarrow> jsval \<Rightarrow> exn + unit" where
  "notification_switch notification ntype =
     (if ntype = Num MENTIONED then
        and_then (get_prop notification ''data'') (\<lambda>d.
        and_then (get_prop d ''original_username'') (\<lambda>_.
        and_then (get_prop d ''topic_title'') (\<lambda>_. Inr ())))
      else if ntype = Num REPLIED then
        and_then (get_prop notification ''topic_id'') (\<lambda>_. Inr ())
      else if ntype = Num PRIVATE_MESSAGE then
        and_then (get_prop notification ''data'') (\<lambda>d.
        and_then (get_prop d ''topic_title'') (\<lambda>_. Inr ()))
      else if ntype = Num GRANTED_BADGE then
        and_then (get_prop notification ''data'') (\<lambda>d.
        and_then (get_prop d ''badge_name'') (\<lambda>_. Inr ()))
      else Inr ())"

definition processNotificationEvent :: "string \<Rightarrow> DiscourseWebhookEvent \<Rightarrow> exn + ProcessingResult" where
  "processNotificationEvent now ev =
     and_then (destructure (payload ev) ''notification'' ''payload'') (\<lambda>notification.
     and_then (get_prop notification ''notification_type'') (\<lambda>ntype.
     and_then (notification_switch notification ntype) (\<lambda>_.
     Inr (ok_result now ev))))"

definition processGenericEvent :: "string \<Rightarrow> DiscourseWebhookEvent \<Rightarrow> exn + ProcessingResult" where
  "processGenericEvent now ev = Inr (ok_result now ev)"

section \<open>\<open>worker/index.ts\<close>: \<open>routeMessage\<close>\<close>

definition routeMessage :: "string \<Rightarrow> QueueMessage \<Rightarrow> exn + unit" where
  "routeMessage now message =
     (let ev = event message;
          eventType = event_type ev
      in if eventType = ''notification'' \<or> eventType = ''notification_created''
         then (case processNotificationEvent now ev of
                 Inl e \<Rightarrow> Inl e
               | Inr result \<Rightarrow> Inr ())
         else Inr ())"

section \<open>\<open>handler/config.ts\<close> and \<open>handler/index.ts\<close>: \<open>POST /webhook\<close>\<close>

record HandlerConfig =
  discourseWebhookSecret :: string
  rabbitmqUrl :: string
  queueName :: string
  port :: int
  logLevel :: string

text \<open>
  The request as the handler reads it: the header table, and \<open>rawBody\<close>, which the
  content type parser sets for JSON bodies only.
\<close>

record FastifyRequest =
  req_headers :: "string \<rightharpoonup> string"
  rawBody :: "buffer option"

record Reply =
  statusCode :: nat
  sent :: "(string \<times> string) list"

text \<open>What the handler takes from its environment: \<open>randomUUID()\<close> and the two dates.\<close>

record Env =
  randomUUID :: string
  date_received :: string
  date_queued :: string

text \<open>\<open>!h\<close> for a header value: absent, or the empty string.\<close>

definition missing :: "string option \<Rightarrow> bool" where
  "missing h = (h = None \<or> h = Some [])"

text \<open>
  The \<open>try\<close> block of the route: the reply or the exception, the messages given to
  \<open>messageQueue.publish\<close>, and the messages given to \<open>channel.sendToQueue\<close>.
  \<open>JSON_parse\<close> is \<open>JSON.parse(rawBody.toString("utf-8"))\<close>. Past the two header
  checks both headers are present and not empty, and \<open>the\<close> reads their values.
\<close>

definition webhook_try ::
  "HandlerConfig \<Rightarrow> MessageQueue \<Rightarrow> (buffer \<Rightarrow> exn + jsval) \<Rightarrow> Env \<Rightarrow> FastifyRequest
     \<Rightarrow> (exn + Reply) \<times> QueueMessage list \<times> QueueMessage list" where
  "webhook_try config messageQueue JSON_parse env request =
     (let signature = req_headers request ''x-discourse-event-signature'';
          eventType = req_headers request ''x-discourse-event'';
          eventId = req_headers request ''x-discourse-event-id'';
          instance = req_headers request ''x-discourse-instance''
      in if missing signature then
           (Inr \<lparr>statusCode = 400,
                 sent = [(''error'', ''Bad Request''),
                         (''message'', ''Missing X-Discourse-Event-Signature header'')]\<rparr>, [], [])
         else if missing eventType then
           (Inr \<lparr>statusCode = 400,
                 sent = [(''error'', ''Bad Request''),
                         (''message'', ''Missing X-Discourse-Event header'')]\<rparr>, [], [])
         else case rawBody request of
           None \<Rightarrow>
             (Inr \<lparr>statusCode = 500,
                   sent = [(''error'', ''Internal Server Error''),
                           (''message'', ''Raw body not available'')]\<rparr>, [], [])
         | Some body \<Rightarrow>
             if \<not> valid (validateWebhookSignature body (the signature) (discourseWebhookSecret config))
             then
               (Inr \<lparr>statusCode = 403,
                     sent = [(''error'', ''Forbidden''), (''message'', ''Invalid signature'')]\<rparr>, [], [])
             else case JSON_parse body of
               Inl e \<Rightarrow> (Inl e, [], [])
             | Inr parsed \<Rightarrow>
                 let webhookEvent =
                       \<lparr>event_type = the eventType,
                        payload = parsed,
                        headers = \<lparr>x_discourse_event = the eventType,
                                   x_discourse_event_signature = the signature,
                                   x_discourse_event_id = eventId,
                                   x_discourse_instance = instance\<rparr>,
                        received_at = date_received env\<rparr>;
                     queueMessage =
                       \<lparr>id' = randomUUID env, event = webhookEvent,
                        timestamp = date_queued env, retry_count = Some 0\<rparr>
                 in case publish messageQueue queueMessage of
                      (Inl e, sends) \<Rightarrow> (Inl e, [queueMessage], sends)
                    | (Inr published, sends) \<Rightarrow>
                        if \<not> published then
                          (Inr \<lparr>statusCode = 503,
                                sent = [(''error'', ''Service Unavailable''),
                                        (''message'', ''Queue is full or unavailable'')]\<rparr>,
                           [queueMessage], sends)
                        else
                          (Inr \<lparr>statusCode = 200,
                                sent = [(''status'', ''queued''),
                                        (''message_id'', id' queueMessage)]\<rparr>,
                           [queueMessage], sends))"

text \<open>The route with its \<open>catch\<close>: every exception becomes the reply 500.\<close>

definition webhook ::
  "HandlerConfig \<Rightarrow> MessageQueue \<Rightarrow> (buffer \<Rightarrow> exn + jsval) \<Rightarrow> Env \<Rightarrow> FastifyRequest
     \<Rightarrow> Reply \<times> QueueMessage list \<times> QueueMessage list" where
  "webhook config messageQueue JSON_parse env request =
     (case webhook_try config messageQueue JSON_parse env request of
        (Inl e, calls, sends) \<Rightarrow>
          (\<lparr>statusCode = 500,
            sent = [(''error'', ''Internal Server Error''),
                    (''message'', ''Failed to process webhook'')]\<rparr>, calls, sends)
      | (Inr reply, calls, sends) \<Rightarrow> (reply, calls, sends))"

definition reply_of :: "Reply \<times> QueueMessage list \<times> QueueMessage list \<Rightarrow> Reply" where
  "reply_of r = fst r"

definition publish_calls :: "Reply \<times> QueueMessage list \<times> QueueMessage list \<Rightarrow> QueueMessage list" where
  "publish_calls r = fst (snd r)"

definition sendToQueue_calls :: "Reply \<times> QueueMessage list \<times> QueueMessage list \<Rightarrow> QueueMessage list" where
  "sendToQueue_calls r = snd (snd r)"

section \<open>The outcomes and inputs the properties speak of\<close>

text \<open>The three failure results of the validator and its success result, by name.\<close>

definition Valid :: SignatureValidationResult where
  "Valid = \<lparr>valid = True, error = None\<rparr>"

definition malformed_header :: SignatureValidationResult where
  "malformed_header =
     \<lparr>valid = False, error = Some ''Invalid signature format. Expected \"sha256=<hash>\"''\<rparr>"

definition signature_mismatch :: SignatureValidationResult where
  "signature_mismatch =
     \<lparr>valid = False,
      error = Some ''Signature mismatch. Request may be tampered or secret is incorrect''\<rparr>"

definition internal_error :: "exn \<Rightarrow> SignatureValidationResult" where
  "internal_error e = \<lparr>valid = False, error = Some (''Signature validation error: '' @ message_of e)\<rparr>"

definition length_error :: exn where
  "length_error = Error RangeError ''Input buffers must have the same byte length''"

text \<open>The header a sender computes for a body under a secret.\<close>

definition signature_for :: "string \<Rightarrow> buffer \<Rightarrow> string" where
  "signature_for secret body = ''sha256='' @ hex_encode (hmac_sha256 (bytes_of secret) body)"





text \<open>
  The inputs of the scenarios: the body \<open>{"user":{"id":1,"username":"test"}}\<close>, the
  secret \<open>topsecret\<close>, the value \<open>JSON.parse\<close> gives for that body, and a request
  that carries the body with a given signature header.
\<close>

definition scenario_body :: buffer where
  "scenario_body = bytes_of ''{\"user\":{\"id\":1,\"username\":\"test\"}}''"

definition scenario_payload :: jsval where
  "scenario_payload = Obj [(''user'', Obj [(''id'', Num 1), (''username'', Str ''test'')])]"

definition scenario_parse :: "buffer \<Rightarrow> exn + jsval" where
  "scenario_parse b =
     (if b = scenario_body then Inr scenario_payload
      else Inl (Error SyntaxError ''Unexpected token''))"

definition scenario_config :: HandlerConfig where
  "scenario_config =
     \<lparr>discourseWebhookSecret = ''topsecret'', rabbitmqUrl = ''amqp://localhost:5672'',
      queueName = ''discourse-events'', port = 3000, logLevel = ''info''\<rparr>"

definition scenario_env :: Env where
  "scenario_env =
     \<lparr>randomUUID = ''0b9a4f0e-6c1d-4a57-9d5e-2f1c3b7a8e90'',
      date_received = ''2025-11-18T10:00:00.000Z'',
      date_queued = ''2025-11-18T10:00:00.001Z''\<rparr>"

definition scenario_request :: "string \<Rightarrow> string \<Rightarrow> FastifyRequest" where
  "scenario_request eventType signature =
     \<lparr>req_headers = [''x-discourse-event'' \<mapsto> eventType,
                     ''x-discourse-event-signature'' \<mapsto> signature],
      rawBody = Some scenario_body\<rparr>"

text \<open>A request that carries the body and a signature header, and no event type header.\<close>

definition untyped_request :: "string \<Rightarrow> FastifyRequest" where
  "untyped_request signature =
     \<lparr>req_headers = [''x-discourse-event-signature'' \<mapsto> signature],
      rawBody = Some scenario_body\<rparr>"

text \<open>
  States of the broker client: a channel that accepts, a channel whose write buffer is
  full, and a client that never connected.
\<close>

definition accepting_queue :: MessageQueue where
  "accepting_queue = \<lparr>connection = True, channel = Some \<lparr>sendToQueue = (\<lambda>m. Inr True)\<rparr>\<rparr>"

definition saturated_queue :: MessageQueue where
  "saturated_queue = \<lparr>connection = True, channel = Some \<lparr>sendToQueue = (\<lambda>m. Inr False)\<rparr>\<rparr>"

definition unconnected_queue :: MessageQueue where
  "unconnected_queue = \<lparr>connection = False, channel = None\<rparr>"

text \<open>
  A client whose channel closed after the start: the class keeps the channel object,
  and amqplib's \<open>sendToQueue\<close> on a closed channel throws.
\<close>

definition closed_channel_queue :: MessageQueue where
  "closed_channel_queue =
     \<lparr>connection = True,
      channel = Some \<lparr>sendToQueue = (\<lambda>m. Inl (Error PlainError ''Channel closed''))\<rparr>\<rparr>"

text \<open>
  A message as the gateway publishes it, and its delivery: \<open>publish\<close> sets no header,
  so the delivery has an empty header table.
\<close>

definition scenario_message :: "string \<Rightarrow> QueueMessage" where
  "scenario_message eventType =
     \<lparr>id' = ''0b9a4f0e-6c1d-4a57-9d5e-2f1c3b7a8e90'',
      event = \<lparr>event_type = eventType,
               payload = scenario_payload,
               headers = \<lparr>x_discourse_event = eventType,
                          x_discourse_event_signature = signature_for ''topsecret'' scenario_body,
                          x_discourse_event_id = None,
                          x_discourse_instance = None\<rparr>,
               received_at = ''2025-11-18T10:00:00.000Z''\<rparr>,
      timestamp = ''2025-11-18T10:00:00.001Z'',
      retry_count = Some 0\<rparr>"

definition scenario_delivery :: "string \<Rightarrow> ConsumeMessage" where
  "scenario_delivery eventType =
     \<lparr>content = bytes_of
        (''{\"id\":\"0b9a4f0e-6c1d-4a57-9d5e-2f1c3b7a8e90\",\"event\":{\"event_type\":\"'' @ eventType @
         ''\",\"payload\":{\"user\":{\"id\":1,\"username\":\"test\"}},'' @
         ''\"headers\":{\"x-discourse-event\":\"'' @ eventType @
         ''\",\"x-discourse-event-signature\":\"'' @ signature_for ''topsecret'' scenario_body @
         ''\"},\"received_at\":\"2025-11-18T10:00:00.000Z\"},'' @
         ''\"timestamp\":\"2025-11-18T10:00:00.001Z\",\"retry_count\":0}''),
      properties_headers = Some Map.empty,
      redelivered = False\<rparr>"

definition scenario_parse_message :: "string \<Rightarrow> buffer \<Rightarrow> exn + QueueMessage" where
  "scenario_parse_message eventType b =
     (if b = content (scenario_delivery eventType) then Inr (scenario_message eventType)
      else Inl (Error SyntaxError ''Unexpected token''))"

text \<open>The header value a delivery command leaves on the message it names.\<close>

fun retryCount_in :: "channel_cmd \<Rightarrow> int" where
  "retryCount_in (Ack m) = retryCount_of m"
| "retryCount_in (Reject m requeue) = retryCount_of m"

text \<open>
  Processing a delivery fails: its content does not parse, or the handler throws on the
  parsed message.
\<close>

definition fails_on ::
  "(buffer \<Rightarrow> exn + QueueMessage) \<Rightarrow> (QueueMessage \<Rightarrow> exn + unit) \<Rightarrow> buffer \<Rightarrow> bool" where
  "fails_on JSON_parse handler c =
     (case JSON_parse c of
        Inl e \<Rightarrow> True
      | Inr m \<Rightarrow> (case handler m of Inl e \<Rightarrow> True | Inr u \<Rightarrow> False))"

section \<open>Facts about the runtime library\<close>

lemma unhex_hex_digit_all: "list_all (\<lambda>n. unhex (hex_digit n) = Some n) [0..<16]"
  by code_simp

lemma unhex_hex_digit: "n < 16 \<Longrightarrow> unhex (hex_digit n) = Some n"
  using unhex_hex_digit_all by (simp add: list_all_iff)

lemma unat_byte_div16: "unat (b :: byte) div 16 < 16"
proof -
  have "unat b < 256" using unsigned_less [of b, where 'a = nat] by simp
  then show ?thesis by simp
qed

lemma hex_encode_Cons:
  "hex_encode (b # bs) = hex_digit (unat b div 16) # hex_digit (unat b mod 16) # hex_encode bs"
  by (simp add: hex_encode_def)

text \<open>Decoding the hex text of a buffer gives the buffer back.\<close>

lemma hex_decode_encode: "hex_decode (hex_encode bs) = bs"
proof (induction bs)
  case Nil
  then show ?case by (simp add: hex_encode_def)
next
  case (Cons b bs)
  then show ?case
    by (simp add: hex_encode_Cons unhex_hex_digit unat_byte_div16 del: of_nat_add of_nat_mult)
qed

text \<open>A digest has 32 bytes.\<close>

lemma length_round256: "length st = 8 \<Longrightarrow> length (round256 st kw) = 8"
proof -
  assume "length st = 8"
  then obtain a b c d e f g h where "st = [a, b, c, d, e, f, g, h]"
    by (auto simp: length_Suc_conv eval_nat_numeral)
  then show ?thesis by (cases kw) (simp add: Let_def)
qed

lemma length_foldl_round256: "length st = 8 \<Longrightarrow> length (foldl round256 st kws) = 8"
  by (induction kws arbitrary: st) (simp_all add: length_round256)

lemma length_compress: "length hs = 8 \<Longrightarrow> length (compress hs block) = 8"
  by (simp add: compress_def length_foldl_round256)

lemma length_foldl_compress: "length hs = 8 \<Longrightarrow> length (foldl compress hs bs) = 8"
  by (induction bs arbitrary: hs) (simp_all add: length_compress)

lemma length_concat_bytes: "length (concat (map bytes_of_w32 ws)) = 4 * length ws"
  by (induction ws) (simp_all add: bytes_of_w32_def)

lemma length_H256: "length H256 = 8"
  by code_simp

lemma length_sha256: "length (sha256 m) = 32"
  by (simp add: sha256_def Let_def length_concat_bytes length_foldl_compress length_H256)

lemma length_hmac_sha256: "length (hmac_sha256 key m) = 32"
  by (simp add: hmac_sha256_def Let_def length_sha256)

text \<open>The round constants as numbers, for evaluation.\<close>

lemma K256_words [code]:
  "K256 = 
    [1116352408, 1899447441, 3049323471, 3921009573, 961987163, 1508970993, 2453635748, 2870763221,
     3624381080, 310598401, 607225278, 1426881987, 1925078388, 2162078206, 2614888103, 3248222580,
     3835390401, 4022224774, 264347078, 604807628, 770255983, 1249150122, 1555081692, 1996064986,
     2554220882, 2821834349, 2952996808, 3210313671, 3336571891, 3584528711, 113926993, 338241895,
     666307205, 773529912, 1294757372, 1396182291, 1695183700, 1986661051, 2177026350, 2456956037,
     2730485921, 2820302411, 3259730800, 3345764771, 3516065817, 3600352804, 4094571909, 275423344,
     430227734, 506948616, 659060556, 883997877, 958139571, 1322822218, 1537002063, 1747873779,
     1955562222, 2024104815, 2227730452, 2361852424, 2428436474, 2756734187, 3204031479, 3329325298]"
  by code_simp

text \<open>The digest of \<open>abc\<close>, the first example of FIPS 180-4.\<close>

lemma sha256_abc:
  "hex_encode (sha256 (bytes_of ''abc''))
     = ''ba7816bf8f01cfea414140de5dae2223b00361a396177a9cb410ff61f20015ad''"
  by code_simp



















section \<open>The signature validator\<close>

text \<open>
  What the \<open>try\<close> block does, by cases; what the validator answers to a header with the
  prefix, by the bytes its hex part decodes to; and to a header without it.
\<close>

lemma validate_try_cases:
  "validate_try B sg S =
     (if \<not> prefix ''sha256='' sg then Inr malformed_header
      else if length (hex_decode (drop 7 sg)) \<noteq> 32 then Inl length_error
      else if hex_decode (drop 7 sg) = hmac_sha256 (bytes_of S) B then Inr Valid
      else Inr signature_mismatch)"
  by (auto simp: validate_try_def timingSafeEqual_def hex_decode_encode length_hmac_sha256
      malformed_header_def length_error_def Valid_def signature_mismatch_def Let_def)

lemma validate_prefixed:
  "validateWebhookSignature body (''sha256='' @ h) secret =
     (if length (hex_decode h) \<noteq> 32 then internal_error length_error
      else if hex_decode h = hmac_sha256 (bytes_of secret) body then Valid
      else signature_mismatch)"
  by (simp add: validateWebhookSignature_def validate_try_cases internal_error_def)

lemma validate_unprefixed:
  "\<not> prefix ''sha256='' signature \<Longrightarrow>
     validateWebhookSignature body signature secret = malformed_header"
  by (simp add: validateWebhookSignature_def validate_try_cases)

lemma validate_of_sender: "validateWebhookSignature B (signature_for S B) S = Valid"
  unfolding signature_for_def
  by (subst validate_prefixed) (simp add: hex_decode_encode length_hmac_sha256)

lemma valid_Valid: "valid Valid"
  by (simp add: Valid_def)

lemma signature_for_nonempty: "signature_for S B \<noteq> []"
  by (simp add: signature_for_def)


text \<open>
  C3. For every body \<open>B\<close> and secret \<open>S\<close>, the validator called with \<open>B\<close>, the header
  \<open>"sha256="\<close> followed by the lowercase hex encoding of HMAC-SHA256(\<open>S\<close>, \<open>B\<close>), and
  \<open>S\<close> returns the valid result: \<open>valid = true\<close> and no error.
\<close>

theorem sender_signature_is_valid:
  "validateWebhookSignature B (''sha256='' @ hex_encode (hmac_sha256 (bytes_of S) B)) S
     = \<lparr>valid = True, error = None\<rparr>"
  using validate_prefixed [of B "hex_encode (hmac_sha256 (bytes_of S) B)" S]
  by (simp add: hex_decode_encode length_hmac_sha256 Valid_def)







text \<open>
  C10. For every body, header and secret the validator returns a result: either
  \<open>valid = true\<close> with no error, or \<open>valid = false\<close> with a non-empty error text. An
  exception that leaves the \<open>try\<close> block is caught and becomes the result
  \<open>valid = false\<close> with the error \<open>"Signature validation error: "\<close> followed by the
  exception's message; and \<open>timingSafeEqual\<close> throws its length error exactly in this
  way when the header has the prefix and its hex part decodes to a buffer whose length
  is not that of the computed digest.
\<close>

theorem validator_never_throws:
  "(valid (validateWebhookSignature B sg S) \<and> error (validateWebhookSignature B sg S) = None
      \<or> \<not> valid (validateWebhookSignature B sg S)
         \<and> (\<exists>m. error (validateWebhookSignature B sg S) = Some m \<and> m \<noteq> []))
   \<and> (\<forall>e. validate_try B sg S = Inl e \<longrightarrow>
          validateWebhookSignature B sg S
            = \<lparr>valid = False, error = Some (''Signature validation error: '' @ message_of e)\<rparr>)
   \<and> (prefix ''sha256='' sg
        \<and> length (hex_decode (drop 7 sg)) \<noteq> length (hmac_sha256 (bytes_of S) B)
        \<longrightarrow> validate_try B sg S = Inl length_error)"
proof -
  have shape: "valid (validateWebhookSignature B sg S) \<and> error (validateWebhookSignature B sg S) = None
      \<or> \<not> valid (validateWebhookSignature B sg S)
         \<and> (\<exists>m. error (validateWebhookSignature B sg S) = Some m \<and> m \<noteq> [])"
    by (simp add: validateWebhookSignature_def validate_try_cases malformed_header_def
        Valid_def signature_mismatch_def)
  have caught: "validateWebhookSignature B sg S
      = \<lparr>valid = False, error = Some (''Signature validation error: '' @ message_of e)\<rparr>"
    if "validate_try B sg S = Inl e" for e
    using that by (simp add: validateWebhookSignature_def)
  have thrown: "validate_try B sg S = Inl length_error"
    if "prefix ''sha256='' sg"
      "length (hex_decode (drop 7 sg)) \<noteq> length (hmac_sha256 (bytes_of S) B)"
    using that by (simp add: validate_try_cases length_hmac_sha256)
  show ?thesis
    using shape caught thrown by blast
qed

text \<open>The theorem at the odd-length digest \<open>abc\<close>: the exception is thrown and caught.\<close>

theorem validator_never_throws_witness:
  "validate_try scenario_body ''sha256=abc'' ''topsecret'' = Inl length_error
   \<and> validateWebhookSignature scenario_body ''sha256=abc'' ''topsecret''
       = \<lparr>valid = False,
          error = Some ''Signature validation error: Input buffers must have the same byte length''\<rparr>"
proof -
  note t = validator_never_throws [of scenario_body "''sha256=abc''" "''topsecret''"]
  have odd: "prefix ''sha256='' ''sha256=abc''
      \<and> length (hex_decode (drop 7 ''sha256=abc''))
          \<noteq> length (hmac_sha256 (bytes_of ''topsecret'') scenario_body)"
    by (simp add: unhex_def length_hmac_sha256)
  have thrown: "validate_try scenario_body ''sha256=abc'' ''topsecret'' = Inl length_error"
    using t [THEN conjunct2, THEN conjunct2] odd by (rule mp)
  have "validateWebhookSignature scenario_body ''sha256=abc'' ''topsecret''
      = \<lparr>valid = False, error = Some (''Signature validation error: '' @ message_of length_error)\<rparr>"
    using t [THEN conjunct2, THEN conjunct1] thrown by blast
  with thrown show ?thesis
    by (simp add: length_error_def)
qed

section \<open>The gateway: \<open>POST /webhook\<close>\<close>

lemma scenario_request_headers:
  "req_headers (scenario_request et sg) ''x-discourse-event-signature'' = Some sg"
  "req_headers (scenario_request et sg) ''x-discourse-event'' = Some et"
  "rawBody (scenario_request et sg) = Some scenario_body"
  by (simp_all add: scenario_request_def)

lemma scenario_signature_valid:
  "valid (validateWebhookSignature scenario_body (signature_for ''topsecret'' scenario_body)
     (discourseWebhookSecret scenario_config))"
  by (simp add: scenario_config_def validate_of_sender valid_Valid)

lemma scenario_parse_body: "scenario_parse scenario_body = Inr scenario_payload"
  by (simp add: scenario_parse_def)

text \<open>
  C5, as the code has it. For every request that carries both required headers, a
  signature that validates and a raw body that parses as JSON, the gateway calls
  \<open>publish\<close> exactly once, with an envelope whose \<open>retry_count\<close> is 0 and whose id is
  the fresh UUID; and when that call returns \<open>true\<close>, the envelope is the one message
  handed to the channel and the reply is 200 with status \<open>queued\<close> and the envelope's
  id as \<open>message_id\<close>.
\<close>

theorem accepted_request_publishes_once:
  assumes "req_headers request ''x-discourse-event-signature'' = Some sg" and "sg \<noteq> []"
    and "req_headers request ''x-discourse-event'' = Some et" and "et \<noteq> []"
    and "rawBody request = Some body"
    and "valid (validateWebhookSignature body sg (discourseWebhookSecret config))"
    and "JSON_parse body = Inr parsed"
  shows "\<exists>qm. publish_calls (webhook config mq JSON_parse env request) = [qm]
            \<and> retry_count qm = Some 0 \<and> id' qm = randomUUID env
            \<and> (fst (publish mq qm) = Inr True \<longrightarrow>
                 reply_of (webhook config mq JSON_parse env request)
                   = \<lparr>statusCode = 200,
                      sent = [(''status'', ''queued''), (''message_id'', id' qm)]\<rparr>
                 \<and> sendToQueue_calls (webhook config mq JSON_parse env request) = [qm])"
proof -
  let ?qm = "\<lparr>id' = randomUUID env,
              event = \<lparr>event_type = et, payload = parsed,
                       headers = \<lparr>x_discourse_event = et, x_discourse_event_signature = sg,
                                  x_discourse_event_id = req_headers request ''x-discourse-event-id'',
                                  x_discourse_instance = req_headers request ''x-discourse-instance''\<rparr>,
                       received_at = date_received env\<rparr>,
              timestamp = date_queued env, retry_count = Some 0\<rparr>"
  let ?r = "webhook config mq JSON_parse env request"
  have calls: "publish_calls ?r = [?qm]"
    using assms
    by (simp add: webhook_def webhook_try_def missing_def publish_calls_def Let_def
        split: prod.splits sum.splits)
  have ok: "fst (publish mq ?qm) = Inr True \<Longrightarrow>
      reply_of ?r = \<lparr>statusCode = 200, sent = [(''status'', ''queued''), (''message_id'', id' ?qm)]\<rparr>
      \<and> sendToQueue_calls ?r = [?qm]"
    using assms
    by (auto simp: webhook_def webhook_try_def missing_def reply_of_def sendToQueue_calls_def
        publish_def Let_def split: prod.splits sum.splits option.splits)
  show ?thesis
    using calls ok by (intro exI [of _ ?qm]) simp
qed

text \<open>
  The theorem at the scenario: the body signed under \<open>topsecret\<close>, a channel that
  accepts. One envelope is published, with \<open>retry_count = 0\<close>, and the reply is 200
  with its id.
\<close>

theorem accepted_request_publishes_once_witness:
  "publish_calls (webhook scenario_config accepting_queue scenario_parse scenario_env
      (scenario_request ''user_created'' (signature_for ''topsecret'' scenario_body)))
     = [scenario_message ''user_created'']
   \<and> retry_count (scenario_message ''user_created'') = Some 0
   \<and> reply_of (webhook scenario_config accepting_queue scenario_parse scenario_env
      (scenario_request ''user_created'' (signature_for ''topsecret'' scenario_body)))
     = \<lparr>statusCode = 200,
        sent = [(''status'', ''queued''), (''message_id'', ''0b9a4f0e-6c1d-4a57-9d5e-2f1c3b7a8e90'')]\<rparr>"
proof -
  let ?rq = "scenario_request ''user_created'' (signature_for ''topsecret'' scenario_body)"
  let ?r = "webhook scenario_config accepting_queue scenario_parse scenario_env ?rq"
  obtain qm where qm: "publish_calls ?r = [qm]" "retry_count qm = Some 0"
      "id' qm = randomUUID scenario_env"
      "fst (publish accepting_queue qm) = Inr True \<longrightarrow>
         reply_of ?r = \<lparr>statusCode = 200, sent = [(''status'', ''queued''), (''message_id'', id' qm)]\<rparr>
         \<and> sendToQueue_calls ?r = [qm]"
    using accepted_request_publishes_once [where request = ?rq
        and sg = "signature_for ''topsecret'' scenario_body" and et = "''user_created''"
        and body = scenario_body and config = scenario_config and JSON_parse = scenario_parse
        and parsed = scenario_payload and mq = accepting_queue and env = scenario_env]
      scenario_signature_valid scenario_parse_body scenario_request_headers signature_for_nonempty
    by auto
  have acc: "fst (publish accepting_queue qm) = Inr True"
    by (simp add: publish_def accepting_queue_def)
  have calls: "publish_calls ?r = [scenario_message ''user_created'']"
    using scenario_signature_valid scenario_parse_body
    by (simp add: webhook_def webhook_try_def missing_def publish_calls_def Let_def
        scenario_request_def scenario_message_def scenario_env_def signature_for_nonempty
        split: prod.splits sum.splits)
  show ?thesis
    using qm acc calls by (simp add: scenario_env_def)
qed

text \<open>
  Against C5 as stated: the same request when the channel's write buffer is full.
  \<open>publish\<close> returns \<open>false\<close> and the reply is 503, not 200.
\<close>

theorem saturated_broker_gives_503:
  "reply_of (webhook scenario_config saturated_queue scenario_parse scenario_env
      (scenario_request ''user_created'' (signature_for ''topsecret'' scenario_body)))
     = \<lparr>statusCode = 503,
        sent = [(''error'', ''Service Unavailable''), (''message'', ''Queue is full or unavailable'')]\<rparr>"
  using scenario_signature_valid
  by (simp add: webhook_def webhook_try_def missing_def reply_of_def Let_def publish_def
      scenario_request_def scenario_parse_def saturated_queue_def signature_for_nonempty)

text \<open>
  What the gateway answers when the publish step fails, in general: 503 when \<open>publish\<close>
  returns \<open>false\<close>, 500 when it throws; one call of \<open>publish\<close> either way.
\<close>

lemma publish_failure_replies:
  assumes "req_headers request ''x-discourse-event-signature'' = Some sg" and "sg \<noteq> []"
    and "req_headers request ''x-discourse-event'' = Some et" and "et \<noteq> []"
    and "rawBody request = Some body"
    and "valid (validateWebhookSignature body sg (discourseWebhookSecret config))"
    and "JSON_parse body = Inr parsed"
  shows "(\<forall>ch. channel mq = Some ch \<and> (\<forall>m. sendToQueue ch m = Inr False) \<longrightarrow>
            statusCode (reply_of (webhook config mq JSON_parse env request)) = 503)
       \<and> (\<forall>ch e. channel mq = Some ch \<and> (\<forall>m. sendToQueue ch m = Inl e) \<longrightarrow>
            statusCode (reply_of (webhook config mq JSON_parse env request)) = 500)
       \<and> (channel mq = None \<longrightarrow>
            statusCode (reply_of (webhook config mq JSON_parse env request)) = 500)
       \<and> length (publish_calls (webhook config mq JSON_parse env request)) = 1"
  using assms
  by (auto simp: webhook_def webhook_try_def missing_def reply_of_def publish_calls_def
      publish_def Let_def split: prod.splits sum.splits option.splits)

text \<open>
  C6, at the inputs where the code departs from it: the scenario's signed request when
  the channel has closed (\<open>sendToQueue\<close> throws) and when the client never connected
  (\<open>publish\<close> throws). The exception reaches the route's \<open>catch\<close> and the reply is 500,
  not 503.
\<close>

theorem failed_publish_gives_500:
  "reply_of (webhook scenario_config closed_channel_queue scenario_parse scenario_env
      (scenario_request ''user_created'' (signature_for ''topsecret'' scenario_body)))
     = \<lparr>statusCode = 500,
        sent = [(''error'', ''Internal Server Error''), (''message'', ''Failed to process webhook'')]\<rparr>
   \<and> reply_of (webhook scenario_config unconnected_queue scenario_parse scenario_env
      (scenario_request ''user_created'' (signature_for ''topsecret'' scenario_body)))
     = \<lparr>statusCode = 500,
        sent = [(''error'', ''Internal Server Error''), (''message'', ''Failed to process webhook'')]\<rparr>"
  using scenario_signature_valid
  by (simp add: webhook_def webhook_try_def missing_def reply_of_def Let_def publish_def
      scenario_request_def scenario_parse_def closed_channel_queue_def unconnected_queue_def
      signature_for_nonempty)

text \<open>
  C7. For every request that carries both required headers and a raw body on which the
  validator, run with the header's value and the configured secret, answers
  \<open>valid = false\<close> (for whichever reason), the gateway replies 403 Forbidden and calls
  neither \<open>publish\<close> nor \<open>sendToQueue\<close>.
\<close>

theorem invalid_signature_is_forbidden:
  assumes "req_headers request ''x-discourse-event-signature'' = Some sg" and "sg \<noteq> []"
    and "req_headers request ''x-discourse-event'' = Some et" and "et \<noteq> []"
    and "rawBody request = Some body"
    and "\<not> valid (validateWebhookSignature body sg (discourseWebhookSecret config))"
  shows "webhook config mq JSON_parse env request
           = (\<lparr>statusCode = 403,
               sent = [(''error'', ''Forbidden''), (''message'', ''Invalid signature'')]\<rparr>,
              [], [])"
  using assms by (simp add: webhook_def webhook_try_def missing_def)

text \<open>The theorem at the scenario's body with the header \<open>sha256=deadbeef\<close>.\<close>

theorem invalid_signature_is_forbidden_witness:
  "\<not> valid (validateWebhookSignature scenario_body ''sha256=deadbeef'' ''topsecret'')
   \<and> webhook scenario_config accepting_queue scenario_parse scenario_env
        (scenario_request ''user_created'' ''sha256=deadbeef'')
       = (\<lparr>statusCode = 403,
           sent = [(''error'', ''Forbidden''), (''message'', ''Invalid signature'')]\<rparr>,
          [], [])"
proof -
  have "validateWebhookSignature scenario_body (''sha256='' @ ''deadbeef'') ''topsecret''
      = internal_error length_error"
    by (subst validate_prefixed) (simp add: unhex_def)
  then have inv: "\<not> valid (validateWebhookSignature scenario_body ''sha256=deadbeef''
      (discourseWebhookSecret scenario_config))"
    by (simp add: internal_error_def scenario_config_def)
  have "webhook scenario_config accepting_queue scenario_parse scenario_env
        (scenario_request ''user_created'' ''sha256=deadbeef'')
       = (\<lparr>statusCode = 403,
           sent = [(''error'', ''Forbidden''), (''message'', ''Invalid signature'')]\<rparr>,
          [], [])"
    using invalid_signature_is_forbidden [where request = "scenario_request ''user_created'' ''sha256=deadbeef''"
        and sg = "''sha256=deadbeef''" and et = "''user_created''" and body = scenario_body
        and config = scenario_config and mq = accepting_queue and JSON_parse = scenario_parse
        and env = scenario_env]
      inv scenario_request_headers
    by simp
  with inv show ?thesis
    by (simp add: scenario_config_def)
qed

text \<open>
  C8. For every request without the event type header (absent, or empty), the gateway
  replies 400 Bad Request and calls neither \<open>publish\<close> nor \<open>sendToQueue\<close>.
\<close>

theorem missing_event_type_is_bad_request:
  assumes "missing (req_headers request ''x-discourse-event'')"
  shows "statusCode (reply_of (webhook config mq JSON_parse env request)) = 400
         \<and> publish_calls (webhook config mq JSON_parse env request) = []
         \<and> sendToQueue_calls (webhook config mq JSON_parse env request) = []"
  using assms
  by (simp add: webhook_def webhook_try_def reply_of_def publish_calls_def sendToQueue_calls_def
      Let_def)

text \<open>The theorem at a correctly signed request that has no event type header.\<close>

theorem missing_event_type_is_bad_request_witness:
  "webhook scenario_config accepting_queue scenario_parse scenario_env
     (untyped_request (signature_for ''topsecret'' scenario_body))
     = (\<lparr>statusCode = 400,
         sent = [(''error'', ''Bad Request''), (''message'', ''Missing X-Discourse-Event header'')]\<rparr>,
        [], [])"
proof -
  let ?rq = "untyped_request (signature_for ''topsecret'' scenario_body)"
  have m: "missing (req_headers ?rq ''x-discourse-event'')"
    by (simp add: missing_def untyped_request_def)
  note t = missing_event_type_is_bad_request [OF m,
      of scenario_config accepting_queue scenario_parse scenario_env]
  have "webhook scenario_config accepting_queue scenario_parse scenario_env ?rq
      = (\<lparr>statusCode = 400,
          sent = [(''error'', ''Bad Request''), (''message'', ''Missing X-Discourse-Event header'')]\<rparr>,
         publish_calls (webhook scenario_config accepting_queue scenario_parse scenario_env ?rq),
         sendToQueue_calls (webhook scenario_config accepting_queue scenario_parse scenario_env ?rq))"
    by (simp add: webhook_def webhook_try_def missing_def untyped_request_def Let_def
        publish_calls_def sendToQueue_calls_def signature_for_nonempty)
  with t show ?thesis
    by simp
qed

section \<open>The worker: routing and the consumer's decision\<close>

lemma retryCount_requeued: "retryCount_of (requeued_as msg) = retryCount_of msg"
  by (simp add: retryCount_of_def requeued_as_def)

lemma content_requeued: "content (requeued_as msg) = content msg"
  by (simp add: requeued_as_def)

lemma requeued_twice: "requeued_as (requeued_as msg) = requeued_as msg"
  by (simp add: requeued_as_def)

text \<open>The decision of the \<open>catch\<close> block: requeue below 3, no requeue from 3 on.\<close>

lemma on_error_below_limit: "retryCount_of msg < 3 \<Longrightarrow> on_error msg = [Reject msg True]"
  by (simp add: on_error_def)

lemma on_error_at_limit: "3 \<le> retryCount_of msg \<Longrightarrow> on_error msg = [Reject msg False]"
  by (simp add: on_error_def)

lemma on_message_fails:
  "fails_on JSON_parse handler (content msg) \<Longrightarrow>
     on_message JSON_parse handler (Some msg) = on_error msg"
  by (simp add: on_message_def fails_on_def split: sum.splits)

text \<open>
  A delivery whose processing fails and whose header reads below 3 is requeued at
  every one of its deliveries, however many: the header it comes back with is the one
  it left with.
\<close>

lemma failing_delivery_requeued_forever:
  assumes "fails_on JSON_parse handler (content msg)" and "retryCount_of msg < 3"
  shows "deliveries (Suc n) (on_message JSON_parse handler) msg
           = Reject msg True # replicate n (Reject (requeued_as msg) True)"
  using assms
proof (induction n arbitrary: msg)
  case 0
  then show ?case
    by (simp add: on_message_fails on_error_below_limit)
next
  case (Suc n)
  have step: "deliveries (Suc (Suc n)) (on_message JSON_parse handler) msg
      = Reject msg True # deliveries (Suc n) (on_message JSON_parse handler) (requeued_as msg)"
    using Suc.prems by (simp add: on_message_fails on_error_below_limit)
  have "deliveries (Suc n) (on_message JSON_parse handler) (requeued_as msg)
      = Reject (requeued_as msg) True # replicate n (Reject (requeued_as (requeued_as msg)) True)"
    using Suc.prems by (intro Suc.IH) (simp_all add: content_requeued retryCount_requeued)
  with step show ?case
    by (simp add: requeued_twice)
qed

text \<open>
  The scenario of a processor that fails: a \<open>notification\<close> event whose payload has no
  \<open>notification\<close> object; \<open>processNotificationEvent\<close> throws a \<open>TypeError\<close> on it.
\<close>

lemma scenario_notification_fails:
  "routeMessage now (scenario_message ''notification'')
     = Inl (Error TypeError
         (''Cannot read properties of undefined (reading '' @ quoted ''notification_type'' @ '')''))"
  by (simp add: routeMessage_def scenario_message_def processNotificationEvent_def and_then_def
      scenario_payload_def)

lemma scenario_fails_on:
  "fails_on (scenario_parse_message ''notification'') (routeMessage now)
     (content (scenario_delivery ''notification''))"
  by (simp add: fails_on_def scenario_parse_message_def scenario_notification_fails)

lemma scenario_retryCount: "retryCount_of (scenario_delivery t) = 0"
  by (simp add: retryCount_of_def scenario_delivery_def)

lemma scenario_deliveries:
  "deliveries 5 (on_message (scenario_parse_message ''notification'') (routeMessage now))
       (scenario_delivery ''notification'')
     = [Reject (scenario_delivery ''notification'') True,
        Reject (requeued_as (scenario_delivery ''notification'')) True,
        Reject (requeued_as (scenario_delivery ''notification'')) True,
        Reject (requeued_as (scenario_delivery ''notification'')) True,
        Reject (requeued_as (scenario_delivery ''notification'')) True]"
proof -
  have five: "(5::nat) = Suc 4"
    by simp
  have "deliveries (Suc 4) (on_message (scenario_parse_message ''notification'') (routeMessage now))
       (scenario_delivery ''notification'')
     = Reject (scenario_delivery ''notification'') True
       # replicate 4 (Reject (requeued_as (scenario_delivery ''notification'')) True)"
    by (rule failing_delivery_requeued_forever) (simp_all add: scenario_fails_on scenario_retryCount)
  also have "\<dots> = [Reject (scenario_delivery ''notification'') True,
        Reject (requeued_as (scenario_delivery ''notification'')) True,
        Reject (requeued_as (scenario_delivery ''notification'')) True,
        Reject (requeued_as (scenario_delivery ''notification'')) True,
        Reject (requeued_as (scenario_delivery ''notification'')) True]"
    by (simp add: eval_nat_numeral)
  finally show ?thesis
    unfolding five .
qed

text \<open>
  C1, at the input where the code departs from it: the failing scenario. Delivered
  five times, every delivery, the fourth too, ends in a reject with requeue, and the
  message is delivered a fifth time; and so for any number of deliveries: the message
  is never dead-lettered.
\<close>

theorem fourth_failure_is_requeued:
  "deliveries 5 (on_message (scenario_parse_message ''notification'')
       (routeMessage ''2025-11-18T10:00:02.000Z'')) (scenario_delivery ''notification'')
     = [Reject (scenario_delivery ''notification'') True,
        Reject (requeued_as (scenario_delivery ''notification'')) True,
        Reject (requeued_as (scenario_delivery ''notification'')) True,
        Reject (requeued_as (scenario_delivery ''notification'')) True,
        Reject (requeued_as (scenario_delivery ''notification'')) True]
   \<and> (\<forall>n. deliveries (Suc n) (on_message (scenario_parse_message ''notification'')
          (routeMessage ''2025-11-18T10:00:02.000Z'')) (scenario_delivery ''notification'')
        = Reject (scenario_delivery ''notification'') True
          # replicate n (Reject (requeued_as (scenario_delivery ''notification'')) True))"
proof (intro conjI allI)
  show "deliveries 5 (on_message (scenario_parse_message ''notification'')
       (routeMessage ''2025-11-18T10:00:02.000Z'')) (scenario_delivery ''notification'')
     = [Reject (scenario_delivery ''notification'') True,
        Reject (requeued_as (scenario_delivery ''notification'')) True,
        Reject (requeued_as (scenario_delivery ''notification'')) True,
        Reject (requeued_as (scenario_delivery ''notification'')) True,
        Reject (requeued_as (scenario_delivery ''notification'')) True]"
    by (rule scenario_deliveries)
next
  fix n
  show "deliveries (Suc n) (on_message (scenario_parse_message ''notification'')
          (routeMessage ''2025-11-18T10:00:02.000Z'')) (scenario_delivery ''notification'')
        = Reject (scenario_delivery ''notification'') True
          # replicate n (Reject (requeued_as (scenario_delivery ''notification'')) True)"
    by (rule failing_delivery_requeued_forever) (simp_all add: scenario_fails_on scenario_retryCount)
qed

text \<open>
  C2, at the same input: the retry count the consumer reads is 0 at each of the five
  deliveries, and the requeued message has the header table of the delivered one: no
  count is recorded.
\<close>

theorem retry_count_never_recorded:
  "map retryCount_in
     (deliveries 5 (on_message (scenario_parse_message ''notification'')
        (routeMessage ''2025-11-18T10:00:02.000Z'')) (scenario_delivery ''notification''))
     = [0, 0, 0, 0, 0]
   \<and> properties_headers (requeued_as (scenario_delivery ''notification''))
       = properties_headers (scenario_delivery ''notification'')"
proof
  show "map retryCount_in
     (deliveries 5 (on_message (scenario_parse_message ''notification'')
        (routeMessage ''2025-11-18T10:00:02.000Z'')) (scenario_delivery ''notification''))
     = [0, 0, 0, 0, 0]"
    by (simp only: scenario_deliveries) (simp add: retryCount_requeued scenario_retryCount)
  show "properties_headers (requeued_as (scenario_delivery ''notification''))
       = properties_headers (scenario_delivery ''notification'')"
    by (simp add: requeued_as_def)
qed

text \<open>
  C9. For every message whose event type is neither \<open>notification\<close> nor
  \<open>notification_created\<close>, routing returns without raising; so the delivery whose
  content parses to that message is acknowledged by the consumer callback, and by
  \<open>consume\<close> on a client that has its channel: one \<open>Ack\<close>, no reject, with or without
  requeue.
\<close>

theorem unknown_event_type_is_acknowledged:
  assumes "event_type (event message) \<noteq> ''notification''"
    and "event_type (event message) \<noteq> ''notification_created''"
  shows "routeMessage now message = Inr ()
       \<and> (JSON_parse (content msg) = Inr message \<longrightarrow>
            on_message JSON_parse (routeMessage now) (Some msg) = [Ack msg]
            \<and> (channel mq \<noteq> None \<longrightarrow>
                 consume mq JSON_parse (routeMessage now) [Some msg] = Inr [Ack msg]))"
proof -
  have r: "routeMessage now message = Inr ()"
    using assms by (simp add: routeMessage_def)
  have a: "on_message JSON_parse (routeMessage now) (Some msg) = [Ack msg]"
    if "JSON_parse (content msg) = Inr message"
    using that r by (simp add: on_message_def)
  have c: "consume mq JSON_parse (routeMessage now) [Some msg] = Inr [Ack msg]"
    if "JSON_parse (content msg) = Inr message" "channel mq \<noteq> None"
    using that a by (auto simp: consume_def)
  show ?thesis
    using r a c by blast
qed

text \<open>The theorem at the scenario's message with the event type \<open>user_created\<close>.\<close>

theorem unknown_event_type_is_acknowledged_witness:
  "routeMessage ''2025-11-18T10:00:02.000Z'' (scenario_message ''user_created'') = Inr ()
   \<and> consume accepting_queue (scenario_parse_message ''user_created'')
        (routeMessage ''2025-11-18T10:00:02.000Z'') [Some (scenario_delivery ''user_created'')]
       = Inr [Ack (scenario_delivery ''user_created'')]"
proof -
  have ne: "event_type (event (scenario_message ''user_created'')) \<noteq> ''notification''"
    "event_type (event (scenario_message ''user_created'')) \<noteq> ''notification_created''"
    by (simp_all add: scenario_message_def)
  note t = unknown_event_type_is_acknowledged [OF ne,
      of "''2025-11-18T10:00:02.000Z''" "scenario_parse_message ''user_created''"
         "scenario_delivery ''user_created''" accepting_queue]
  have p: "scenario_parse_message ''user_created'' (content (scenario_delivery ''user_created''))
      = Inr (scenario_message ''user_created'')"
    by (simp add: scenario_parse_message_def)
  have ch: "channel accepting_queue \<noteq> None"
    by (simp add: accepting_queue_def)
  from t p ch show ?thesis
    by blast
qed

end
